theory Spec2Isabelle
  imports Main
begin

unbundle bit_operations_syntax

section \<open>JSON values and the JavaScript operations the program applies to them\<close>

text \<open>
  The program reads its credential record with \<^verbatim>\<open>JSON.parse\<close> and never checks the
  shape of what it gets beyond \<^verbatim>\<open>typeof tokens === 'object'\<close>, so the model keeps
  the whole range of JSON values. An object is a map from property names to values: a
  property that is absent (or \<^verbatim>\<open>undefined\<close>, which \<^verbatim>\<open>JSON.stringify\<close> drops) is
  \<open>None\<close>. Numbers are integers: the only arithmetic of the program is on
  epoch-millisecond timestamps, where JavaScript's doubles are exact.
\<close>

datatype json =
    JNull
  | JBool bool
  | JNum int
  | JStr string
  | JArr "json list"
  | JObj "string \<Rightarrow> json option"

type_synonym obj = "string \<Rightarrow> json option"

text \<open>JavaScript truthiness of a JSON value; \<^verbatim>\<open>undefined\<close> (an absent property) is falsy.\<close>

fun js_truthy :: "json \<Rightarrow> bool" where
  "js_truthy JNull = False"
| "js_truthy (JBool b) = b"
| "js_truthy (JNum n) = (n \<noteq> 0)"
| "js_truthy (JStr s) = (s \<noteq> [])"
| "js_truthy (JArr xs) = True"
| "js_truthy (JObj m) = True"

definition truthy_prop :: "json option \<Rightarrow> bool" where
  "truthy_prop p = (case p of None \<Rightarrow> False | Some v \<Rightarrow> js_truthy v)"

text \<open>\<^verbatim>\<open>a || b\<close> on two property reads.\<close>

definition js_or :: "json option \<Rightarrow> json option \<Rightarrow> json option" where
  "js_or a b = (if truthy_prop a then a else b)"

text \<open>\<^verbatim>\<open>typeof v === 'object'\<close>: true of objects, arrays and \<^verbatim>\<open>null\<close>.\<close>

fun typeof_object :: "json \<Rightarrow> bool" where
  "typeof_object JNull = True"
| "typeof_object (JArr xs) = True"
| "typeof_object (JObj m) = True"
| "typeof_object (JBool b) = False"
| "typeof_object (JNum n) = False"
| "typeof_object (JStr s) = False"

text \<open>
  Reading one of the named properties the program reads (\<^verbatim>\<open>expiry_date\<close>,
  \<^verbatim>\<open>refresh_token\<close>, \<^verbatim>\<open>access_token\<close>, \<^verbatim>\<open>installed\<close>, ...) from a value
  that is not \<^verbatim>\<open>null\<close>: only an object has such a property; on an array, a string, a
  number or a boolean the read gives \<^verbatim>\<open>undefined\<close>. Reading from \<^verbatim>\<open>null\<close> throws, which
  each caller below writes out.
\<close>

fun own_prop :: "json \<Rightarrow> string \<Rightarrow> json option" where
  "own_prop (JObj m) k = m k"
| "own_prop JNull k = None"
| "own_prop (JBool b) k = None"
| "own_prop (JNum n) k = None"
| "own_prop (JStr s) k = None"
| "own_prop (JArr xs) k = None"

text \<open>A property name that is a canonical array index (\<^verbatim>\<open>"0"\<close>, \<^verbatim>\<open>"1"\<close>, \<^verbatim>\<open>"10"\<close>, ...).\<close>

definition is_digit :: "char \<Rightarrow> bool" where
  "is_digit c = (c \<in> set ''0123456789'')"

definition array_index :: "string \<Rightarrow> nat option" where
  "array_index k =
     (if k \<noteq> [] \<and> list_all is_digit k \<and> (k = ''0'' \<or> hd k \<noteq> CHR ''0'')
      then Some (foldl (\<lambda>n c. 10 * n + (of_char c - 48)) 0 k)
      else None)"

text \<open>
  The own enumerable properties that an object spread \<^verbatim>\<open>{...v}\<close> copies: those of an
  object, the elements of an array and the characters of a string under their indices,
  nothing for \<^verbatim>\<open>null\<close>, a number or a boolean.
\<close>

fun spread :: "json \<Rightarrow> obj" where
  "spread (JObj m) = m"
| "spread (JArr xs) =
     (\<lambda>k. case array_index k of
             None \<Rightarrow> None
           | Some i \<Rightarrow> if i < length xs then Some (xs ! i) else None)"
| "spread (JStr s) =
     (\<lambda>k. case array_index k of
             None \<Rightarrow> None
           | Some i \<Rightarrow> if i < length s then Some (JStr [s ! i]) else None)"
| "spread JNull = Map.empty"
| "spread (JBool b) = Map.empty"
| "spread (JNum n) = Map.empty"

section \<open>The process state and its environment\<close>

text \<open>
  What \<^verbatim>\<open>fs.access\<close>, \<^verbatim>\<open>fs.readFile\<close> and \<^verbatim>\<open>JSON.parse\<close> make of the token file
  \<^verbatim>\<open>.gcp-saved-tokens.json\<close>: \<open>Missing\<close> when \<^verbatim>\<open>fs.access\<close> rejects, \<open>Unreadable\<close> when
  the file is there and \<^verbatim>\<open>fs.readFile\<close> rejects, \<open>Malformed\<close> when \<^verbatim>\<open>JSON.parse\<close>
  throws, \<open>Parsed v\<close> when the content is the JSON text of \<open>v\<close>.
\<close>

datatype file_content = Missing | Unreadable | Malformed | Parsed json

datatype error =
    FsError
  | SyntaxError
  | TypeError
  | RefreshRejected
  | ZodError
  | ApiError
  | Error string

text \<open>One call of \<^verbatim>\<open>fs.writeFile\<close> on the token file: the \<^verbatim>\<open>mode\<close> option and the data.\<close>

record write_event =
  w_mode :: nat
  w_data :: json

text \<open>
  The state the credential code reads and changes: the token file and its permission
  bits (which mean something while the file exists), the calls of \<^verbatim>\<open>fs.writeFile\<close>
  made on it, the credentials held by \<^verbatim>\<open>oauth2Client\<close>, how many \<^verbatim>\<open>'tokens'\<close>
  listeners are registered on the client, how many times \<^verbatim>\<open>refreshAccessToken\<close> was
  called, and the lines written to the console.
\<close>

record state =
  token_file :: file_content
  file_mode :: nat
  writes :: "write_event list"
  credentials :: "json option"
  token_listeners :: nat
  refresh_calls :: nat
  console :: "string list"

text \<open>
  What the token endpoint answers to the refresh request that
  \<^verbatim>\<open>oauth2Client.refreshAccessToken()\<close> sends: the request fails, or it returns a
  token record. The \<^verbatim>\<open>'tokens'\<close> listeners that google-auth-library notifies during
  the call run as separate runs of \<open>on_tokens\<close> below.
\<close>

datatype refresh_result = Rejected | Resolved obj

text \<open>
  What the outside world answers during one call: \<^verbatim>\<open>Date.now()\<close> (milliseconds since
  the epoch), the outcome of the refresh request, whether \<^verbatim>\<open>fs.writeFile\<close> succeeds,
  the process's umask, and the number JavaScript's \<^verbatim>\<open>-\<close> coerces a string, an array or
  an object to (\<open>None\<close> is \<^verbatim>\<open>NaN\<close>), which only matters for a token file whose
  \<^verbatim>\<open>expiry_date\<close> is not a number.
\<close>

record env =
  now :: nat
  refresh_response :: refresh_result
  write_ok :: bool
  umask :: nat
  to_number :: "json \<Rightarrow> int option"

definition log_line :: "string \<Rightarrow> state \<Rightarrow> state" where
  "log_line msg s = s\<lparr>console := console s @ [msg]\<rparr>"

text \<open>The permission mode \<^verbatim>\<open>0o600\<close>: read and write for the owner, nothing else.\<close>

definition mode_0o600 :: nat where
  "mode_0o600 = 6 * 8 * 8"

text \<open>
  \<^verbatim>\<open>fs.writeFile(tokenPath, JSON.stringify(data, null, 2), { mode })\<close>. The call is
  recorded with its mode; when it succeeds the file holds the JSON text of \<open>data\<close>, when
  it rejects the file is taken to be as before. Node opens the file with the flag
  \<^verbatim>\<open>'w'\<close> and passes \<^verbatim>\<open>mode\<close> to \<^verbatim>\<open>open\<close>, which uses it only when it creates the
  file (less the bits of the umask): a file that exists keeps its permission bits.
\<close>

definition writeFile :: "env \<Rightarrow> json \<Rightarrow> nat \<Rightarrow> state \<Rightarrow> (error + unit) \<times> state" where
  "writeFile e d mode s =
     (let s' = s\<lparr>writes := writes s @ [\<lparr>w_mode = mode, w_data = d\<rparr>]\<rparr>
      in if write_ok e
         then (Inr (),
               s'\<lparr>token_file := Parsed d,
                  file_mode := (if token_file s = Missing
                                then mode - (mode AND umask e)
                                else file_mode s)\<rparr>)
         else (Inl FsError, s'))"

section \<open>loadSavedTokens (src/index.ts, lines 128-185)\<close>

text \<open>The operand of \<^verbatim>\<open>expiryDate - 5 * 60 * 1000\<close> as a number; \<open>None\<close> is \<^verbatim>\<open>NaN\<close>.\<close>

definition js_number :: "env \<Rightarrow> json \<Rightarrow> int option" where
  "js_number e v =
     (case v of
        JNum n \<Rightarrow> Some n
      | JBool b \<Rightarrow> Some (if b then 1 else 0)
      | JNull \<Rightarrow> Some 0
      | _ \<Rightarrow> to_number e v)"

text \<open>
  \<^verbatim>\<open>const isExpired = expiryDate ? Date.now() >= (expiryDate - 5 * 60 * 1000) : true;\<close>
  A comparison with \<^verbatim>\<open>NaN\<close> is false.
\<close>

definition isExpired :: "env \<Rightarrow> json option \<Rightarrow> bool" where
  "isExpired e expiryDate =
     (case expiryDate of
        None \<Rightarrow> True
      | Some v \<Rightarrow>
          if js_truthy v
          then (case js_number e v of
                  None \<Rightarrow> False
                | Some d \<Rightarrow> int (now e) \<ge> d - 5 * 60 * 1000)
          else True)"

text \<open>
  \<^verbatim>\<open>oauth2Client.refreshAccessToken()\<close> of google-auth-library, which is not part of
  the reviewed source: it sends the refresh request with the client's
  \<^verbatim>\<open>refresh_token\<close>; when the endpoint returns a token record it sets that record's
  \<^verbatim>\<open>refresh_token\<close> to the client's (\<^verbatim>\<open>tokens.refresh_token =
  this.credentials.refresh_token\<close>), makes the record the client's credentials and
  resolves with it as \<^verbatim>\<open>response.credentials\<close>. \<open>None\<close> is the rejected call, which
  leaves the client's credentials as they were.
\<close>

definition installed_refresh_token :: "state \<Rightarrow> json option" where
  "installed_refresh_token s =
     (case credentials s of None \<Rightarrow> None | Some c \<Rightarrow> own_prop c ''refresh_token'')"

definition refreshAccessToken :: "env \<Rightarrow> state \<Rightarrow> obj option \<times> state" where
  "refreshAccessToken e s =
     (let s1 = s\<lparr>refresh_calls := refresh_calls s + 1\<rparr>
      in case refresh_response e of
           Rejected \<Rightarrow> (None, s1)
         | Resolved tokens \<Rightarrow>
             (let newTokens = tokens(''refresh_token'' := installed_refresh_token s)
              in (Some newTokens, s1\<lparr>credentials := Some (JObj newTokens)\<rparr>)))"

text \<open>
  The inner \<^verbatim>\<open>try\<close> block (lines 150-159): refresh, reject a response without
  \<^verbatim>\<open>access_token\<close>, write the response to the token file with mode \<^verbatim>\<open>0o600\<close>, install
  it. \<open>Inl\<close> is the exception that reaches the inner \<^verbatim>\<open>catch\<close>.
\<close>

definition refresh_and_save :: "env \<Rightarrow> state \<Rightarrow> (error + unit) \<times> state" where
  "refresh_and_save e s =
     (case refreshAccessToken e s of
        (None, s1) \<Rightarrow> (Inl RefreshRejected, s1)
      | (Some newTokens, s1) \<Rightarrow>
          if \<not> truthy_prop (newTokens ''access_token'')
          then (Inl (Error ''Received invalid tokens during refresh''), s1)
          else (case writeFile e (JObj newTokens) mode_0o600 s1 of
                  (Inl err, s2) \<Rightarrow> (Inl err, s2)
                | (Inr u, s2) \<Rightarrow> (Inr (), s2\<lparr>credentials := Some (JObj newTokens)\<rparr>)))"

text \<open>
  The body of the outer \<^verbatim>\<open>try\<close> (lines 130-180). \<open>Inl\<close> is an exception that reaches
  the outer \<^verbatim>\<open>catch\<close>: a rejected \<^verbatim>\<open>fs.readFile\<close> or a throwing \<^verbatim>\<open>JSON.parse\<close>.
  Registering the \<^verbatim>\<open>'tokens'\<close> listener (line 166) adds one to \<open>token_listeners\<close>.
\<close>

definition loadSavedTokens_try :: "env \<Rightarrow> state \<Rightarrow> (error + bool) \<times> state" where
  "loadSavedTokens_try e s =
     (case token_file s of
        Missing \<Rightarrow> (Inr False, log_line ''No token file found'' s)
      | Unreadable \<Rightarrow> (Inl FsError, s)
      | Malformed \<Rightarrow> (Inl SyntaxError, s)
      | Parsed tokens \<Rightarrow>
          if \<not> js_truthy tokens \<or> \<not> typeof_object tokens
          then (Inr False, log_line ''Invalid token format'' s)
          else
            (let s1 = s\<lparr>credentials := Some tokens\<rparr>;
                 expiryDate = own_prop tokens ''expiry_date'';
                 expired = isExpired e expiryDate
             in if expired \<and> truthy_prop (own_prop tokens ''refresh_token'')
                then (case refresh_and_save e s1 of
                        (Inl refreshError, s2) \<Rightarrow>
                          (Inr False, log_line ''Error refreshing auth token:'' s2)
                      | (Inr u, s2) \<Rightarrow>
                          (Inr True, s2\<lparr>token_listeners := token_listeners s2 + 1\<rparr>))
                else (Inr True, s1\<lparr>token_listeners := token_listeners s1 + 1\<rparr>)))"

text \<open>
  The whole function: the outer \<^verbatim>\<open>catch\<close> logs and returns \<^verbatim>\<open>false\<close>. The result is
  the settled promise: \<open>Inr b\<close> when it resolves with \<open>b\<close>, \<open>Inl err\<close> when it rejects.
\<close>

definition loadSavedTokens :: "env \<Rightarrow> state \<Rightarrow> (error + bool) \<times> state" where
  "loadSavedTokens e s =
     (case loadSavedTokens_try e s of
        (Inl err, s') \<Rightarrow> (Inr False, log_line ''Error loading tokens:'' s')
      | (Inr b, s') \<Rightarrow> (Inr b, s'))"

section \<open>The 'tokens' listener (src/index.ts, lines 166-178)\<close>

text \<open>
  The body of the listener's \<^verbatim>\<open>try\<close>: read and parse the token file, build
  \<^verbatim>\<open>{...currentTokens, ...newTokens, refresh_token: newTokens.refresh_token || currentTokens.refresh_token}\<close>
  and write it with mode \<^verbatim>\<open>0o600\<close>. When the file holds \<^verbatim>\<open>null\<close>, reading
  \<^verbatim>\<open>currentTokens.refresh_token\<close> throws, which happens only if the left operand of
  \<^verbatim>\<open>||\<close> is falsy.
\<close>

definition on_tokens_try :: "env \<Rightarrow> obj \<Rightarrow> state \<Rightarrow> (error + unit) \<times> state" where
  "on_tokens_try e newTokens s =
     (case token_file s of
        Missing \<Rightarrow> (Inl FsError, s)
      | Unreadable \<Rightarrow> (Inl FsError, s)
      | Malformed \<Rightarrow> (Inl SyntaxError, s)
      | Parsed currentTokens \<Rightarrow>
          if \<not> truthy_prop (newTokens ''refresh_token'') \<and> currentTokens = JNull
          then (Inl TypeError, s)
          else
            (let updatedTokens =
                   (spread currentTokens ++ newTokens)
                     (''refresh_token'' :=
                        js_or (newTokens ''refresh_token'')
                              (own_prop currentTokens ''refresh_token''))
             in writeFile e (JObj updatedTokens) mode_0o600 s))"

definition on_tokens :: "env \<Rightarrow> obj \<Rightarrow> state \<Rightarrow> state" where
  "on_tokens e newTokens s =
     (case on_tokens_try e newTokens s of
        (Inl err, s') \<Rightarrow> log_line ''Error saving updated tokens:'' s'
      | (Inr u, s') \<Rightarrow> s')"

section \<open>Tool calls (src/index.ts, lines 361-518)\<close>

text \<open>
  The module's variables \<^verbatim>\<open>oauth2Client\<close> and \<^verbatim>\<open>authServer\<close>: \<open>None\<close> until
  \<^verbatim>\<open>main\<close> assigns them. The classes \<^verbatim>\<open>AuthServer\<close> and \<^verbatim>\<open>TokenManager\<close> are
  imported from modules outside the reviewed source; of an \<^verbatim>\<open>AuthServer\<close> object the
  model keeps the port it listens on (\<open>None\<close> while it is not started), and the calls of
  \<^verbatim>\<open>tokenManager\<close> are answered by the environment.
\<close>

record oauth_client =
  clientId :: "json option"
  clientSecret :: "json option"
  redirectUri :: "json option"

record auth_server =
  listening :: "nat option"

record globals =
  oauth2Client :: "oauth_client option"
  authServer :: "auth_server option"

text \<open>A number in a template literal: its decimal digits.\<close>

definition digit_char :: "nat \<Rightarrow> char" where
  "digit_char d = ''0123456789'' ! d"

fun decimal :: "nat \<Rightarrow> string" where
  "decimal n = (if n < 10 then [digit_char n] else decimal (n div 10) @ [digit_char (n mod 10)])"

declare decimal.simps [simp del]

text \<open>
  Lines 366-369:
  \<^verbatim>\<open>const port = authServer ? 3000 : null;\<close> and the message chosen by
  \<^verbatim>\<open>port ? `...` : '...'\<close> (a port of \<^verbatim>\<open>0\<close> would be falsy like \<^verbatim>\<open>null\<close>).
\<close>

definition auth_port :: "globals \<Rightarrow> nat option" where
  "auth_port g = (if authServer g \<noteq> None then Some 3000 else None)"

definition interactive_message :: "nat \<Rightarrow> string" where
  "interactive_message port =
     ''Authentication required. Please visit http://localhost:'' @ decimal port @
     '' to authenticate with Google Calendar. If this port is unavailable, the server will try ports 3001-3004.''"

definition headless_message :: string where
  "headless_message =
     ''Authentication required. Please run '' @ [CHR 0x22] @ ''npm run auth'' @ [CHR 0x22] @
     '' to authenticate with Google Calendar.''"

definition authMessage :: "globals \<Rightarrow> string" where
  "authMessage g =
     (case auth_port g of
        None \<Rightarrow> headless_message
      | Some port \<Rightarrow> if port \<noteq> 0 then interactive_message port else headless_message)"

text \<open>The operations of the Calendar API client that the handler calls.\<close>

datatype api_op =
    CalendarList_list
  | Events_list
  | Events_insert
  | Events_patch
  | Events_delete
  | Colors_get

type_synonym api_call = "api_op \<times> obj"

text \<open>
  What the handler returns: a fixed text, or \<open>Rendered oper d\<close>, which stands for what
  the template strings of lines 380-508 make of the data \<open>d\<close> of an API response (the
  text, or the exception that formatting it raises). The formatting itself is not
  modelled.
\<close>

datatype tool_response = Text string | Rendered api_op json

text \<open>
  The environment of one tool call: how \<^verbatim>\<open>tokenManager.validateTokens()\<close> settles, and
  what the Calendar API answers to a call (\<open>None\<close>: the call rejects).
\<close>

record tool_env =
  validateTokens :: "error + bool"
  api :: "api_op \<Rightarrow> obj \<Rightarrow> json option"

text \<open>The zod schemas of lines 45-81: what \<^verbatim>\<open>z.string()\<close>, \<^verbatim>\<open>z.string().optional()\<close>
  and the optional array of \<^verbatim>\<open>{email: string}\<close> objects accept.\<close>

definition z_string :: "json option \<Rightarrow> bool" where
  "z_string p = (case p of Some (JStr s) \<Rightarrow> True | _ \<Rightarrow> False)"

definition z_string_optional :: "json option \<Rightarrow> bool" where
  "z_string_optional p = (p = None \<or> z_string p)"

definition z_attendee :: "json \<Rightarrow> bool" where
  "z_attendee a = (case a of JObj m \<Rightarrow> z_string (m ''email'') | _ \<Rightarrow> False)"

definition z_attendees_optional :: "json option \<Rightarrow> bool" where
  "z_attendees_optional p =
     (case p of None \<Rightarrow> True | Some (JArr xs) \<Rightarrow> list_all z_attendee xs | _ \<Rightarrow> False)"

text \<open>\<^verbatim>\<open>Schema.parse(args)\<close>: a \<^verbatim>\<open>ZodError\<close>, or the arguments with unknown keys stripped
  (also inside each attendee).\<close>

definition strip_attendees :: "obj \<Rightarrow> obj" where
  "strip_attendees m =
     (case m ''attendees'' of
        Some (JArr xs) \<Rightarrow>
          m(''attendees'' \<mapsto> JArr (map (\<lambda>a. JObj (spread a |` {''email''})) xs))
      | _ \<Rightarrow> m)"

definition parse_ListEvents :: "json option \<Rightarrow> error + obj" where
  "parse_ListEvents args =
     (case args of
        Some (JObj m) \<Rightarrow>
          if z_string (m ''calendarId'') \<and> z_string_optional (m ''timeMin'')
             \<and> z_string_optional (m ''timeMax'')
          then Inr (m |` {''calendarId'', ''timeMin'', ''timeMax''})
          else Inl ZodError
      | _ \<Rightarrow> Inl ZodError)"

definition parse_CreateEvent :: "json option \<Rightarrow> error + obj" where
  "parse_CreateEvent args =
     (case args of
        Some (JObj m) \<Rightarrow>
          if z_string (m ''calendarId'') \<and> z_string (m ''summary'')
             \<and> z_string_optional (m ''description'') \<and> z_string (m ''start'')
             \<and> z_string (m ''end'') \<and> z_attendees_optional (m ''attendees'')
             \<and> z_string_optional (m ''location'') \<and> z_string_optional (m ''colorId'')
          then Inr (strip_attendees
                      (m |` {''calendarId'', ''summary'', ''description'', ''start'', ''end'',
                             ''attendees'', ''location'', ''colorId''}))
          else Inl ZodError
      | _ \<Rightarrow> Inl ZodError)"

definition parse_UpdateEvent :: "json option \<Rightarrow> error + obj" where
  "parse_UpdateEvent args =
     (case args of
        Some (JObj m) \<Rightarrow>
          if z_string (m ''calendarId'') \<and> z_string (m ''eventId'')
             \<and> z_string_optional (m ''summary'') \<and> z_string_optional (m ''description'')
             \<and> z_string_optional (m ''start'') \<and> z_string_optional (m ''end'')
             \<and> z_attendees_optional (m ''attendees'')
             \<and> z_string_optional (m ''location'') \<and> z_string_optional (m ''colorId'')
          then Inr (strip_attendees
                      (m |` {''calendarId'', ''eventId'', ''summary'', ''description'',
                             ''start'', ''end'', ''attendees'', ''location'', ''colorId''}))
          else Inl ZodError
      | _ \<Rightarrow> Inl ZodError)"

definition parse_DeleteEvent :: "json option \<Rightarrow> error + obj" where
  "parse_DeleteEvent args =
     (case args of
        Some (JObj m) \<Rightarrow>
          if z_string (m ''calendarId'') \<and> z_string (m ''eventId'')
          then Inr (m |` {''calendarId'', ''eventId''})
          else Inl ZodError
      | _ \<Rightarrow> Inl ZodError)"

text \<open>One call of the Calendar API, recorded in the list of calls made.\<close>

definition call_api :: "tool_env \<Rightarrow> api_op \<Rightarrow> obj \<Rightarrow> (error + json) \<times> api_call list" where
  "call_api te oper params =
     (case api te oper params of
        None \<Rightarrow> (Inl ApiError, [(oper, params)])
      | Some d \<Rightarrow> (Inr d, [(oper, params)]))"

definition rendered :: "api_op \<Rightarrow> (error + json) \<times> api_call list
                         \<Rightarrow> (error + tool_response) \<times> api_call list" where
  "rendered oper r =
     (case r of (Inl err, calls) \<Rightarrow> (Inl err, calls)
              | (Inr d, calls) \<Rightarrow> (Inr (Rendered oper d), calls))"

text \<open>The \<^verbatim>\<open>switch (name)\<close> of lines 376-513; its \<^verbatim>\<open>catch\<close> logs and rethrows.\<close>

definition dispatch :: "tool_env \<Rightarrow> string \<Rightarrow> json option
                         \<Rightarrow> (error + tool_response) \<times> api_call list" where
  "dispatch te name args =
     (if name = ''list-calendars'' then
        rendered CalendarList_list (call_api te CalendarList_list Map.empty)
      else if name = ''list-events'' then
        (case parse_ListEvents args of
           Inl err \<Rightarrow> (Inl err, [])
         | Inr validArgs \<Rightarrow> rendered Events_list (call_api te Events_list validArgs))
      else if name = ''create-event'' then
        (case parse_CreateEvent args of
           Inl err \<Rightarrow> (Inl err, [])
         | Inr validArgs \<Rightarrow> rendered Events_insert (call_api te Events_insert validArgs))
      else if name = ''update-event'' then
        (case parse_UpdateEvent args of
           Inl err \<Rightarrow> (Inl err, [])
         | Inr validArgs \<Rightarrow> rendered Events_patch (call_api te Events_patch validArgs))
      else if name = ''delete-event'' then
        (case parse_DeleteEvent args of
           Inl err \<Rightarrow> (Inl err, [])
         | Inr validArgs \<Rightarrow>
             (case call_api te Events_delete validArgs of
                (Inl err, calls) \<Rightarrow> (Inl err, calls)
              | (Inr d, calls) \<Rightarrow> (Inr (Text ''Event deleted successfully''), calls)))
      else if name = ''list-colors'' then
        (case call_api te Colors_get Map.empty of
           (Inl err, calls) \<Rightarrow> (Inl err, calls)
         | (Inr colors, calls) \<Rightarrow>
             if colors = JNull then (Inl TypeError, calls)
             else if own_prop colors ''kind'' \<noteq> Some (JStr ''calendar#colors'')
             then (Inl (Error ''Invalid color data received from Google Calendar API''), calls)
             else (Inr (Rendered Colors_get colors), calls))
      else (Inl (Error (''Unknown tool: '' @ name)), []))"

text \<open>
  The handler of \<^verbatim>\<open>CallToolRequestSchema\<close>: the authentication gate of lines 365-371,
  then the dispatch. The result is the settled promise and the API calls made.
\<close>

definition call_tool :: "globals \<Rightarrow> tool_env \<Rightarrow> string \<Rightarrow> json option
                          \<Rightarrow> (error + tool_response) \<times> api_call list" where
  "call_tool g te name args =
     (case validateTokens te of
        Inl err \<Rightarrow> (Inl err, [])
      | Inr valid \<Rightarrow>
          if \<not> valid then (Inl (Error (authMessage g)), [])
          else dispatch te name args)"

section \<open>Startup (src/index.ts, lines 97-113 and 525-552)\<close>

text \<open>\<^verbatim>\<open>redirect_uris[0]\<close> on a value that is neither \<^verbatim>\<open>null\<close> nor \<^verbatim>\<open>undefined\<close>.\<close>

fun js_index0 :: "json \<Rightarrow> json option" where
  "js_index0 (JArr xs) = (case xs of [] \<Rightarrow> None | x # rest \<Rightarrow> Some x)"
| "js_index0 (JStr s) = (case s of [] \<Rightarrow> None | c # rest \<Rightarrow> Some (JStr [c]))"
| "js_index0 (JObj m) = m ''0''"
| "js_index0 JNull = None"
| "js_index0 (JBool b) = None"
| "js_index0 (JNum n) = None"

text \<open>
  \<^verbatim>\<open>initializeOAuth2Client\<close>: read and parse the keys file, destructure
  \<^verbatim>\<open>keys.installed\<close>, take \<^verbatim>\<open>redirect_uris[0]\<close>. Every exception is logged and rethrown.
\<close>

definition initializeOAuth2Client :: "file_content \<Rightarrow> error + oauth_client" where
  "initializeOAuth2Client keysFile =
     (case keysFile of
        Missing \<Rightarrow> Inl FsError
      | Unreadable \<Rightarrow> Inl FsError
      | Malformed \<Rightarrow> Inl SyntaxError
      | Parsed keys \<Rightarrow>
          if keys = JNull then Inl TypeError
          else (case own_prop keys ''installed'' of
                  None \<Rightarrow> Inl TypeError
                | Some installed \<Rightarrow>
                    if installed = JNull then Inl TypeError
                    else (case own_prop installed ''redirect_uris'' of
                            None \<Rightarrow> Inl TypeError
                          | Some redirect_uris \<Rightarrow>
                              if redirect_uris = JNull then Inl TypeError
                              else Inr \<lparr>clientId = own_prop installed ''client_id'',
                                        clientSecret = own_prop installed ''client_secret'',
                                        redirectUri = js_index0 redirect_uris\<rparr>)))"

text \<open>
  The environment of \<^verbatim>\<open>main\<close>: the keys file, how \<^verbatim>\<open>tokenManager.loadSavedTokens()\<close>
  settles, how \<^verbatim>\<open>authServer.start()\<close> settles (it rejects, resolves \<^verbatim>\<open>false\<close>, or resolves
  \<^verbatim>\<open>true\<close> listening on a port), and whether \<^verbatim>\<open>server.connect\<close> succeeds.
\<close>

record main_env =
  keys_file :: file_content
  saved_tokens :: "error + bool"
  auth_start :: "error + nat option"
  connect_ok :: bool

text \<open>
  How \<^verbatim>\<open>main\<close> ends: \<^verbatim>\<open>process.exit(code)\<close>, or the server runs with these globals.
  The constructors of \<^verbatim>\<open>TokenManager\<close> and \<^verbatim>\<open>AuthServer\<close> are taken to return.
\<close>

datatype outcome = Exited nat | Running globals

definition connect :: "main_env \<Rightarrow> globals \<Rightarrow> outcome" where
  "connect me g = (if connect_ok me then Running g else Exited 1)"

definition main :: "main_env \<Rightarrow> outcome" where
  "main me =
     (case initializeOAuth2Client (keys_file me) of
        Inl err \<Rightarrow> Exited 1
      | Inr client \<Rightarrow>
          (let g = \<lparr>oauth2Client = Some client, authServer = Some \<lparr>listening = None\<rparr>\<rparr>
           in case saved_tokens me of
                Inl err \<Rightarrow> Exited 1
              | Inr loaded \<Rightarrow>
                  if \<not> loaded
                  then (case auth_start me of
                          Inl err \<Rightarrow> Exited 1
                        | Inr None \<Rightarrow> Exited 1
                        | Inr (Some port) \<Rightarrow>
                            connect me (g\<lparr>authServer := Some \<lparr>listening = Some port\<rparr>\<rparr>))
                  else connect me g))"

section \<open>Concrete inputs\<close>

text \<open>A fresh process state around a given token file with permission bits
  \<^verbatim>\<open>0o600\<close>, and an environment in which the disk is writable and the umask is
  \<^verbatim>\<open>0o022\<close>.\<close>

definition state_of :: "file_content \<Rightarrow> state" where
  "state_of f =
     \<lparr>token_file = f, file_mode = mode_0o600, writes = [], credentials = None,
      token_listeners = 0, refresh_calls = 0, console = []\<rparr>"

definition env_of :: "nat \<Rightarrow> refresh_result \<Rightarrow> env" where
  "env_of t r =
     \<lparr>now = t, refresh_response = r, write_ok = True, umask = 2 * 8 + 2,
      to_number = (\<lambda>v. None)\<rparr>"

text \<open>The permission bits \<^verbatim>\<open>0o644\<close>: the owner reads and writes, everybody else reads.\<close>

definition mode_0o644 :: nat where
  "mode_0o644 = 6 * 8 * 8 + 4 * 8 + 4"

text \<open>A stored record that expires one minute after the time \<open>1700000000000\<close>.\<close>

definition stored_record :: obj where
  "stored_record =
     [''access_token'' \<mapsto> JStr ''old'', ''refresh_token'' \<mapsto> JStr ''R'',
      ''expiry_date'' \<mapsto> JNum 1700000060000, ''scope'' \<mapsto> JStr ''calendar'']"

text \<open>What the token endpoint returns to a refresh: a new access token and its
  expiry; and that record with the client's refresh token set in it, which is what
  \<^verbatim>\<open>refreshAccessToken\<close> resolves with.\<close>

definition bare_response :: obj where
  "bare_response =
     [''access_token'' \<mapsto> JStr ''new'', ''expiry_date'' \<mapsto> JNum 1700003600000]"

definition response_with_refresh_token :: obj where
  "response_with_refresh_token =
     [''access_token'' \<mapsto> JStr ''new'', ''refresh_token'' \<mapsto> JStr ''R'',
      ''expiry_date'' \<mapsto> JNum 1700003600000]"

text \<open>A record without refresh token that expired long before \<open>1700000000000\<close>, one
  without \<^verbatim>\<open>expiry_date\<close>, and one that is valid for another hour.\<close>

definition expired_record :: obj where
  "expired_record =
     [''access_token'' \<mapsto> JStr ''old'', ''expiry_date'' \<mapsto> JNum 1600000000000]"

definition undated_record :: obj where
  "undated_record = [''access_token'' \<mapsto> JStr ''old'', ''refresh_token'' \<mapsto> JStr ''R'']"

definition fresh_record :: obj where
  "fresh_record =
     [''access_token'' \<mapsto> JStr ''old'', ''refresh_token'' \<mapsto> JStr ''R'',
      ''expiry_date'' \<mapsto> JNum 1700003600000]"

text \<open>Tool environments in which validation fails and succeeds, globals before
  \<^verbatim>\<open>main\<close> has run, and a startup that finds no saved tokens and whose authorization
  server ends up listening on port 3002.\<close>

definition tool_env_of :: "bool \<Rightarrow> tool_env" where
  "tool_env_of valid = \<lparr>validateTokens = Inr valid, api = (\<lambda>oper params. Some JNull)\<rparr>"

definition no_globals :: globals where
  "no_globals = \<lparr>oauth2Client = None, authServer = None\<rparr>"

definition keys_record :: json where
  "keys_record =
     JObj [''installed'' \<mapsto>
       JObj [''client_id'' \<mapsto> JStr ''id'', ''client_secret'' \<mapsto> JStr ''secret'',
             ''redirect_uris'' \<mapsto> JArr [JStr ''http://localhost'']]]"

definition startup_3002 :: main_env where
  "startup_3002 =
     \<lparr>keys_file = Parsed keys_record, saved_tokens = Inr False,
      auth_start = Inr (Some 3002), connect_ok = True\<rparr>"

definition globals_3002 :: globals where
  "globals_3002 =
     \<lparr>oauth2Client = Some \<lparr>clientId = Some (JStr ''id''), clientSecret = Some (JStr ''secret''),
                            redirectUri = Some (JStr ''http://localhost'')\<rparr>,
      authServer = Some \<lparr>listening = Some 3002\<rparr>\<rparr>"

section \<open>Properties\<close>

lemmas load_defs =
  loadSavedTokens_def loadSavedTokens_try_def refresh_and_save_def refreshAccessToken_def
  installed_refresh_token_def writeFile_def
  isExpired_def js_number_def truthy_prop_def log_line_def Let_def

lemmas on_tokens_defs =
  on_tokens_def on_tokens_try_def writeFile_def js_or_def truthy_prop_def log_line_def Let_def

lemmas example_defs =
  state_of_def env_of_def stored_record_def bare_response_def response_with_refresh_token_def
  expired_record_def undated_record_def fresh_record_def mode_0o644_def

lemma decimal_3000: "decimal 3000 = ''3000''"
  by (simp add: decimal.simps digit_char_def)

lemma interactive_message_3000:
  "interactive_message 3000 =
     ''Authentication required. Please visit http://localhost:3000 to authenticate with Google Calendar. If this port is unavailable, the server will try ports 3001-3004.''"
  by (simp add: interactive_message_def decimal_3000)

lemma main_constructs_authServer: "main me = Running g \<Longrightarrow> authServer g \<noteq> None"
  by (auto simp add: main_def connect_def Let_def split: sum.splits if_splits option.splits)

subsection \<open>The refresh of loadSavedTokens overwrites the stored record\<close>

text \<open>
  Claim C1 says that the refresh performed while loading persists a record that keeps the
  stored \<^verbatim>\<open>refresh_token\<close> and the other stored fields when the refresh response omits
  them. Line 158 writes \<^verbatim>\<open>response.credentials\<close> alone. At the time
  \<open>1700000000000\<close>, with a stored record that expires one minute later and holds a
  refresh token \<^verbatim>\<open>R\<close> and a \<^verbatim>\<open>scope\<close>, and a token endpoint that returns a new access
  token and expiry, the file written holds the new access token and expiry and the
  refresh token \<^verbatim>\<open>R\<close> (which the library has set in the response), and the stored
  \<^verbatim>\<open>scope\<close> is gone.
\<close>
theorem refresh_write_drops_stored_fields:
  "loadSavedTokens (env_of 1700000000000 (Resolved bare_response))
       (state_of (Parsed (JObj stored_record)))
     = (Inr True,
        \<lparr>token_file = Parsed (JObj response_with_refresh_token), file_mode = mode_0o600,
         writes = [\<lparr>w_mode = mode_0o600, w_data = JObj response_with_refresh_token\<rparr>],
         credentials = Some (JObj response_with_refresh_token), token_listeners = 1,
         refresh_calls = 1, console = []\<rparr>)
   \<and> stored_record ''scope'' = Some (JStr ''calendar'')
   \<and> response_with_refresh_token ''scope'' = None
   \<and> response_with_refresh_token ''refresh_token'' = stored_record ''refresh_token''"
proof -
  have r: "bare_response(''refresh_token'' \<mapsto> JStr ''R'') = response_with_refresh_token"
    by (auto simp add: bare_response_def response_with_refresh_token_def fun_eq_iff)
  have "loadSavedTokens (env_of 1700000000000 (Resolved bare_response))
       (state_of (Parsed (JObj stored_record)))
     = (Inr True,
        \<lparr>token_file = Parsed (JObj (bare_response(''refresh_token'' \<mapsto> JStr ''R''))),
         file_mode = mode_0o600,
         writes = [\<lparr>w_mode = mode_0o600,
                    w_data = JObj (bare_response(''refresh_token'' \<mapsto> JStr ''R''))\<rparr>],
         credentials = Some (JObj (bare_response(''refresh_token'' \<mapsto> JStr ''R''))),
         token_listeners = 1, refresh_calls = 1, console = []\<rparr>)"
    by (simp add: load_defs state_of_def env_of_def stored_record_def)
      (simp add: bare_response_def)
  then show ?thesis
    by (simp add: r) (simp add: stored_record_def response_with_refresh_token_def)
qed

subsection \<open>An expired record without refresh token is accepted\<close>

text \<open>
  Claim C2 says that loading returns \<^verbatim>\<open>false\<close> for a record that is expired and
  carries no \<^verbatim>\<open>refresh_token\<close>. The condition of line 149 is false for such a record,
  no branch handles it, and line 180 returns \<^verbatim>\<open>true\<close>: at the time
  \<open>1700000000000\<close> a record that expired at \<open>1600000000000\<close> and has no refresh token is
  installed, no refresh is attempted, and the result is \<^verbatim>\<open>true\<close>.
\<close>
theorem expired_without_refresh_token_returns_true:
  "loadSavedTokens (env_of 1700000000000 Rejected) (state_of (Parsed (JObj expired_record)))
     = (Inr True,
        \<lparr>token_file = Parsed (JObj expired_record), file_mode = mode_0o600, writes = [],
         credentials = Some (JObj expired_record), token_listeners = 1,
         refresh_calls = 0, console = []\<rparr>)
   \<and> isExpired (env_of 1700000000000 Rejected) (expired_record ''expiry_date'')
   \<and> expired_record ''refresh_token'' = None"
  by (simp add: load_defs example_defs)

subsection \<open>The 'tokens' listener merges into the stored record\<close>

text \<open>
  Claim C3: when the token file holds an object with a \<^verbatim>\<open>refresh_token\<close> \<open>R\<close> and
  the listener is notified with a partial record that has no \<^verbatim>\<open>refresh_token\<close>, the
  record it persists (the write succeeding) is the stored record overlaid with the
  partial one: its \<^verbatim>\<open>refresh_token\<close> is still \<open>R\<close>, and every field the partial record
  does not name is as stored. For the partial record \<^verbatim>\<open>{access_token: X}\<close> the
  persisted record is the stored one with \<^verbatim>\<open>access_token\<close> set to \<open>X\<close>.
\<close>
theorem on_tokens_keeps_refresh_token:
  assumes "token_file s = Parsed (JObj cur)"
    and "cur ''refresh_token'' = Some R"
    and "newTokens ''refresh_token'' = None"
    and "write_ok e"
  shows "token_file (on_tokens e newTokens s) = Parsed (JObj (cur ++ newTokens))
       \<and> (cur ++ newTokens) ''refresh_token'' = Some R
       \<and> (\<forall>k. k \<notin> dom newTokens \<longrightarrow> (cur ++ newTokens) k = cur k)
       \<and> (newTokens = [''access_token'' \<mapsto> X] \<longrightarrow>
            token_file (on_tokens e newTokens s) = Parsed (JObj (cur(''access_token'' \<mapsto> X))))"
proof -
  have rt: "(cur ++ newTokens) ''refresh_token'' = Some R"
    using assms(2,3) by (simp add: map_add_def)
  have upd: "(cur ++ newTokens)(''refresh_token'' := Some R) = cur ++ newTokens"
    using rt by (simp add: fun_upd_idem_iff)
  have saved: "token_file (on_tokens e newTokens s) = Parsed (JObj (cur ++ newTokens))"
    using assms upd by (simp add: on_tokens_defs)
  have frame: "\<forall>k. k \<notin> dom newTokens \<longrightarrow> (cur ++ newTokens) k = cur k"
    by (simp add: map_add_def domIff)
  have single: "newTokens = [''access_token'' \<mapsto> X] \<longrightarrow>
      token_file (on_tokens e newTokens s) = Parsed (JObj (cur(''access_token'' \<mapsto> X)))"
    using saved by auto
  show ?thesis using rt saved frame single by blast
qed

theorem on_tokens_keeps_refresh_token_witness:
  "token_file (on_tokens (env_of 1700000000000 Rejected) [''access_token'' \<mapsto> JStr ''X'']
                 (state_of (Parsed (JObj stored_record))))
     = Parsed (JObj [''access_token'' \<mapsto> JStr ''X'', ''refresh_token'' \<mapsto> JStr ''R'',
                     ''expiry_date'' \<mapsto> JNum 1700000060000, ''scope'' \<mapsto> JStr ''calendar''])"
proof -
  have f: "token_file (state_of (Parsed (JObj stored_record))) = Parsed (JObj stored_record)"
    by (simp add: state_of_def)
  have r: "stored_record ''refresh_token'' = Some (JStr ''R'')"
    by (simp add: stored_record_def)
  have n: "[''access_token'' \<mapsto> JStr ''X''] ''refresh_token'' = None"
    by simp
  have w: "write_ok (env_of 1700000000000 Rejected)"
    by (simp add: env_of_def)
  have m: "stored_record(''access_token'' \<mapsto> JStr ''X'')
      = [''access_token'' \<mapsto> JStr ''X'', ''refresh_token'' \<mapsto> JStr ''R'',
         ''expiry_date'' \<mapsto> JNum 1700000060000, ''scope'' \<mapsto> JStr ''calendar'']"
    by (auto simp add: stored_record_def fun_eq_iff)
  show ?thesis
    using on_tokens_keeps_refresh_token
      [where s = "state_of (Parsed (JObj stored_record))" and cur = stored_record
         and R = "JStr ''R''" and newTokens = "[''access_token'' \<mapsto> JStr ''X'']"
         and e = "env_of 1700000000000 Rejected" and X = "JStr ''X''"]
      f r n w m
    by simp
qed

subsection \<open>The authentication gate of the tool-call handler\<close>

text \<open>
  Claim C4: for every tool name and arguments, when \<^verbatim>\<open>validateTokens\<close> resolves
  \<^verbatim>\<open>false\<close> the handler rejects with the authentication-required error, whose message
  is either the one naming \<^verbatim>\<open>http://localhost:3000\<close> or the one telling to run
  \<^verbatim>\<open>npm run auth\<close>, and it makes no call of the Calendar API. The gate comes first: a
  call of the Calendar API is made only when \<^verbatim>\<open>validateTokens\<close> has resolved \<^verbatim>\<open>true\<close>.
\<close>
theorem call_tool_gate:
  "(validateTokens te = Inr False \<longrightarrow>
      call_tool g te name args = (Inl (Error (authMessage g)), [])
      \<and> (authMessage g = interactive_message 3000 \<or> authMessage g = headless_message))
   \<and> (snd (call_tool g te name args) \<noteq> [] \<longrightarrow> validateTokens te = Inr True)
   \<and> interactive_message 3000 =
       ''Authentication required. Please visit http://localhost:3000 to authenticate with Google Calendar. If this port is unavailable, the server will try ports 3001-3004.''
   \<and> headless_message =
       ''Authentication required. Please run '' @ [CHR 0x22] @ ''npm run auth'' @ [CHR 0x22] @
       '' to authenticate with Google Calendar.''"
proof -
  have gate: "validateTokens te = Inr False \<longrightarrow>
      call_tool g te name args = (Inl (Error (authMessage g)), [])"
    by (simp add: call_tool_def)
  have msg: "authMessage g = interactive_message 3000 \<or> authMessage g = headless_message"
    by (simp add: authMessage_def auth_port_def)
  have first: "snd (call_tool g te name args) \<noteq> [] \<longrightarrow> validateTokens te = Inr True"
    by (auto simp add: call_tool_def split: sum.splits if_splits)
  have head: "headless_message =
       ''Authentication required. Please run '' @ [CHR 0x22] @ ''npm run auth'' @ [CHR 0x22] @
       '' to authenticate with Google Calendar.''"
    by (simp add: headless_message_def)
  show ?thesis
    using gate msg first head interactive_message_3000 by blast
qed

theorem call_tool_gate_witness:
  "call_tool no_globals (tool_env_of False) ''create-event'' None
     = (Inl (Error headless_message), [])
   \<and> snd (call_tool no_globals (tool_env_of True) ''list-calendars'' None)
       = [(CalendarList_list, Map.empty)]
   \<and> validateTokens (tool_env_of True) = Inr True"
proof -
  have v: "validateTokens (tool_env_of False) = Inr False"
    by (simp add: tool_env_of_def)
  have m: "authMessage no_globals = headless_message"
    by (simp add: authMessage_def auth_port_def no_globals_def)
  have c: "snd (call_tool no_globals (tool_env_of True) ''list-calendars'' None)
       = [(CalendarList_list, Map.empty)]"
    by (simp add: call_tool_def dispatch_def call_api_def rendered_def tool_env_of_def)
  have "call_tool no_globals (tool_env_of False) ''create-event'' None
     = (Inl (Error headless_message), [])"
    using call_tool_gate [of "tool_env_of False" no_globals "''create-event''" None] v m
    by simp
  moreover have "validateTokens (tool_env_of True) = Inr True"
    using call_tool_gate [of "tool_env_of True" no_globals "''list-calendars''" None] c
    by simp
  ultimately show ?thesis using c by simp
qed

subsection \<open>After startup the gate always names port 3000\<close>

text \<open>
  Claim C10: when \<^verbatim>\<open>main\<close> has started the server, \<^verbatim>\<open>authServer\<close> holds an object,
  so whenever validation fails the handler rejects with the interactive message naming
  \<^verbatim>\<open>http://localhost:3000\<close>, whatever port the authorization server listens on (or none),
  and never with the \<^verbatim>\<open>npm run auth\<close> message.
\<close>
theorem gate_message_after_startup:
  assumes "main me = Running g"
    and "validateTokens te = Inr False"
  shows "call_tool g te name args =
           (Inl (Error ''Authentication required. Please visit http://localhost:3000 to authenticate with Google Calendar. If this port is unavailable, the server will try ports 3001-3004.''), [])
       \<and> authServer g \<noteq> None
       \<and> authMessage g \<noteq> headless_message"
proof -
  have srv: "authServer g \<noteq> None"
    using assms(1) by (rule main_constructs_authServer)
  then have msg: "authMessage g = interactive_message 3000"
    by (simp add: authMessage_def auth_port_def)
  have ne: "interactive_message 3000 \<noteq> headless_message"
    by (simp add: interactive_message_3000 headless_message_def)
  have "call_tool g te name args = (Inl (Error (authMessage g)), [])"
    using assms(2) by (simp add: call_tool_def)
  then show ?thesis
    using srv msg ne interactive_message_3000 by simp
qed

theorem gate_message_after_startup_witness:
  "main startup_3002 = Running globals_3002
   \<and> authServer globals_3002 = Some \<lparr>listening = Some 3002\<rparr>
   \<and> call_tool globals_3002 (tool_env_of False) ''list-events'' None =
       (Inl (Error ''Authentication required. Please visit http://localhost:3000 to authenticate with Google Calendar. If this port is unavailable, the server will try ports 3001-3004.''), [])"
proof -
  have r: "main startup_3002 = Running globals_3002"
    by (simp add: main_def connect_def initializeOAuth2Client_def startup_3002_def
        keys_record_def globals_3002_def)
  have v: "validateTokens (tool_env_of False) = Inr False"
    by (simp add: tool_env_of_def)
  have s: "authServer globals_3002 = Some \<lparr>listening = Some 3002\<rparr>"
    by (simp add: globals_3002_def)
  show ?thesis
    using gate_message_after_startup [OF r v, of "''list-events''" None] r s by simp
qed

subsection \<open>When loadSavedTokens refreshes\<close>




subsection \<open>loadSavedTokens never rejects\<close>

text \<open>
  Claim C6: loading always resolves with a boolean. With the token file missing it
  resolves \<^verbatim>\<open>false\<close> and logs \<^verbatim>\<open>No token file found\<close>; with the file unreadable or
  its content not JSON it resolves \<^verbatim>\<open>false\<close> and logs \<^verbatim>\<open>Error loading tokens:\<close>, a
  different line.
\<close>
theorem loadSavedTokens_never_throws:
  "(\<exists>b. fst (loadSavedTokens e s) = Inr b)
   \<and> (token_file s = Missing \<longrightarrow>
        loadSavedTokens e s = (Inr False, log_line ''No token file found'' s))
   \<and> (token_file s = Unreadable \<or> token_file s = Malformed \<longrightarrow>
        loadSavedTokens e s = (Inr False, log_line ''Error loading tokens:'' s))"
proof -
  have total: "\<exists>b. fst (loadSavedTokens e s) = Inr b"
    by (auto simp add: loadSavedTokens_def split: prod.splits sum.splits)
  have missing: "token_file s = Missing \<longrightarrow>
        loadSavedTokens e s = (Inr False, log_line ''No token file found'' s)"
    by (simp add: loadSavedTokens_def loadSavedTokens_try_def)
  have corrupt: "token_file s = Unreadable \<or> token_file s = Malformed \<longrightarrow>
        loadSavedTokens e s = (Inr False, log_line ''Error loading tokens:'' s)"
    by (auto simp add: loadSavedTokens_def loadSavedTokens_try_def)
  show ?thesis
    using total missing corrupt by blast
qed

theorem loadSavedTokens_never_throws_witness:
  "loadSavedTokens (env_of 1700000000000 Rejected) (state_of Missing)
     = (Inr False, (state_of Missing)\<lparr>console := [''No token file found'']\<rparr>)
   \<and> loadSavedTokens (env_of 1700000000000 Rejected) (state_of Malformed)
     = (Inr False, (state_of Malformed)\<lparr>console := [''Error loading tokens:'']\<rparr>)
   \<and> loadSavedTokens (env_of 1700000000000 Rejected) (state_of Unreadable)
     = (Inr False, (state_of Unreadable)\<lparr>console := [''Error loading tokens:'']\<rparr>)"
  using loadSavedTokens_never_throws [of "env_of 1700000000000 Rejected" "state_of Missing"]
    loadSavedTokens_never_throws [of "env_of 1700000000000 Rejected" "state_of Malformed"]
    loadSavedTokens_never_throws [of "env_of 1700000000000 Rejected" "state_of Unreadable"]
  by (simp add: state_of_def log_line_def)

subsection \<open>An overwritten token file keeps its permission bits\<close>

lemma token_file_mode_unchanged:
  "file_mode (snd (loadSavedTokens e s)) = file_mode s
   \<and> file_mode (on_tokens e newTokens s) = file_mode s"
  by (auto simp add: load_defs on_tokens_defs
      split: file_content.splits refresh_result.splits)

text \<open>
  Claim C7 says that no code path persists the record without the owner-only mode
  \<^verbatim>\<open>0o600\<close>. Both writes pass \<^verbatim>\<open>{ mode: 0o600 }\<close>, and both come after a successful
  read of the same file (lines 132 and 137 before line 158, line 168 before line 174),
  so they overwrite a file that exists, and its permission bits stay as they are. With
  a token file whose bits are \<^verbatim>\<open>0o644\<close>, the refresh of loading and the
  \<^verbatim>\<open>'tokens'\<close> listener each persist the new record in a file that is still
  \<^verbatim>\<open>0o644\<close>, readable by everybody.
\<close>
theorem overwritten_token_file_keeps_mode_0o644:
  "token_file (snd (loadSavedTokens (env_of 1700000000000 (Resolved bare_response))
                      ((state_of (Parsed (JObj stored_record)))\<lparr>file_mode := mode_0o644\<rparr>)))
     = Parsed (JObj (bare_response(''refresh_token'' \<mapsto> JStr ''R'')))
   \<and> file_mode (snd (loadSavedTokens (env_of 1700000000000 (Resolved bare_response))
                      ((state_of (Parsed (JObj stored_record)))\<lparr>file_mode := mode_0o644\<rparr>)))
     = mode_0o644
   \<and> token_file (on_tokens (env_of 1700000000000 Rejected) bare_response
                      ((state_of (Parsed (JObj stored_record)))\<lparr>file_mode := mode_0o644\<rparr>))
     = Parsed (JObj ((stored_record ++ bare_response)(''refresh_token'' \<mapsto> JStr ''R'')))
   \<and> file_mode (on_tokens (env_of 1700000000000 Rejected) bare_response
                      ((state_of (Parsed (JObj stored_record)))\<lparr>file_mode := mode_0o644\<rparr>))
     = mode_0o644
   \<and> mode_0o644 = 420 \<and> mode_0o600 = 384"
proof -
  have a: "token_file (snd (loadSavedTokens (env_of 1700000000000 (Resolved bare_response))
                      ((state_of (Parsed (JObj stored_record)))\<lparr>file_mode := mode_0o644\<rparr>)))
     = Parsed (JObj (bare_response(''refresh_token'' \<mapsto> JStr ''R'')))"
    by (simp add: load_defs state_of_def env_of_def stored_record_def)
      (simp add: bare_response_def)
  have b: "file_mode (snd (loadSavedTokens (env_of 1700000000000 (Resolved bare_response))
                      ((state_of (Parsed (JObj stored_record)))\<lparr>file_mode := mode_0o644\<rparr>)))
     = mode_0o644"
    by (simp add: token_file_mode_unchanged state_of_def)
  have c: "token_file (on_tokens (env_of 1700000000000 Rejected) bare_response
                      ((state_of (Parsed (JObj stored_record)))\<lparr>file_mode := mode_0o644\<rparr>))
     = Parsed (JObj ((stored_record ++ bare_response)(''refresh_token'' \<mapsto> JStr ''R'')))"
    by (simp add: on_tokens_defs state_of_def env_of_def)
      (simp add: bare_response_def stored_record_def)
  have d: "file_mode (on_tokens (env_of 1700000000000 Rejected) bare_response
                      ((state_of (Parsed (JObj stored_record)))\<lparr>file_mode := mode_0o644\<rparr>))
     = mode_0o644"
    by (simp add: token_file_mode_unchanged state_of_def)
  have m: "mode_0o644 = 420 \<and> mode_0o600 = 384"
    by (simp add: mode_0o644_def mode_0o600_def)
  show ?thesis
    using a b c d m by simp
qed

subsection \<open>A record that is valid for more than five minutes\<close>

text \<open>
  Claim C8: when the stored record's \<^verbatim>\<open>expiry_date\<close> is more than five minutes after
  \<^verbatim>\<open>Date.now()\<close>, loading resolves \<^verbatim>\<open>true\<close> without calling \<^verbatim>\<open>refreshAccessToken\<close>
  and without writing the token file: all it does is install the record and register
  the \<^verbatim>\<open>'tokens'\<close> listener.
\<close>
theorem valid_token_loads_without_refresh_or_write:
  assumes "token_file s = Parsed (JObj m)"
    and "m ''expiry_date'' = Some (JNum d)"
    and "int (now e) + 5 * 60 * 1000 < d"
  shows "loadSavedTokens e s =
           (Inr True,
            s\<lparr>credentials := Some (JObj m), token_listeners := token_listeners s + 1\<rparr>)
       \<and> refresh_calls (snd (loadSavedTokens e s)) = refresh_calls s
       \<and> writes (snd (loadSavedTokens e s)) = writes s
       \<and> token_file (snd (loadSavedTokens e s)) = token_file s"
proof -
  have "loadSavedTokens e s =
           (Inr True,
            s\<lparr>credentials := Some (JObj m), token_listeners := token_listeners s + 1\<rparr>)"
    using assms by (auto simp add: load_defs)
  then show ?thesis by simp
qed

theorem valid_token_loads_without_refresh_or_write_witness:
  "loadSavedTokens (env_of 1700000000000 (Resolved bare_response))
       (state_of (Parsed (JObj fresh_record)))
     = (Inr True,
        \<lparr>token_file = Parsed (JObj fresh_record), file_mode = mode_0o600, writes = [],
         credentials = Some (JObj fresh_record), token_listeners = 1,
         refresh_calls = 0, console = []\<rparr>)"
proof -
  have f: "token_file (state_of (Parsed (JObj fresh_record))) = Parsed (JObj fresh_record)"
    by (simp add: state_of_def)
  have d: "fresh_record ''expiry_date'' = Some (JNum 1700003600000)"
    by (simp add: fresh_record_def)
  have n: "int (now (env_of 1700000000000 (Resolved bare_response))) + 5 * 60 * 1000
             < 1700003600000"
    by (simp add: env_of_def)
  show ?thesis
    using valid_token_loads_without_refresh_or_write [OF f d n]
    by (simp add: state_of_def)
qed

subsection \<open>A record without expiry_date\<close>

text \<open>
  Claim C9: a stored record without \<^verbatim>\<open>expiry_date\<close> counts as expired: \<^verbatim>\<open>isExpired\<close>
  is true, a refresh is attempted exactly when the record has a (truthy)
  \<^verbatim>\<open>refresh_token\<close>, and loading answers as it does for the same record with any
  \<^verbatim>\<open>expiry_date\<close> that is past or within the five-minute margin.
\<close>
theorem missing_expiry_date_is_expired:
  assumes "token_file s = Parsed (JObj m)"
    and "m ''expiry_date'' = None"
  shows "isExpired e (own_prop (JObj m) ''expiry_date'')
       \<and> refresh_calls (snd (loadSavedTokens e s)) =
           refresh_calls s + (if truthy_prop (m ''refresh_token'') then 1 else 0)
       \<and> (\<forall>d. int (now e) \<ge> d - 5 * 60 * 1000 \<longrightarrow>
            fst (loadSavedTokens e s) =
            fst (loadSavedTokens e
                   (s\<lparr>token_file := Parsed (JObj (m(''expiry_date'' \<mapsto> JNum d)))\<rparr>)))"
proof -
  have expired: "isExpired e (own_prop (JObj m) ''expiry_date'')"
    using assms(2) by (simp add: isExpired_def)
  have calls: "refresh_calls (snd (loadSavedTokens e s)) =
           refresh_calls s + (if truthy_prop (m ''refresh_token'') then 1 else 0)"
    using assms by (auto simp add: load_defs split: refresh_result.splits)
  have same: "\<forall>d. int (now e) \<ge> d - 5 * 60 * 1000 \<longrightarrow>
            fst (loadSavedTokens e s) =
            fst (loadSavedTokens e
                   (s\<lparr>token_file := Parsed (JObj (m(''expiry_date'' \<mapsto> JNum d)))\<rparr>))"
    using assms by (auto simp add: load_defs split: refresh_result.splits)
  show ?thesis
    using expired calls same by blast
qed

theorem missing_expiry_date_is_expired_witness:
  "refresh_calls (snd (loadSavedTokens (env_of 1700000000000 (Resolved bare_response))
                         (state_of (Parsed (JObj undated_record))))) = 1
   \<and> isExpired (env_of 1700000000000 (Resolved bare_response))
        (own_prop (JObj undated_record) ''expiry_date'')
   \<and> fst (loadSavedTokens (env_of 1700000000000 (Resolved bare_response))
             (state_of (Parsed (JObj undated_record))))
     = fst (loadSavedTokens (env_of 1700000000000 (Resolved bare_response))
             ((state_of (Parsed (JObj undated_record)))
                \<lparr>token_file := Parsed (JObj (undated_record(''expiry_date'' \<mapsto> JNum 1600000000000)))\<rparr>))"
proof -
  have f: "token_file (state_of (Parsed (JObj undated_record))) = Parsed (JObj undated_record)"
    by (simp add: state_of_def)
  have d: "undated_record ''expiry_date'' = None"
    by (simp add: undated_record_def)
  have n: "int (now (env_of 1700000000000 (Resolved bare_response)))
             \<ge> 1600000000000 - 5 * 60 * 1000"
    by (simp add: env_of_def)
  have r: "truthy_prop (undated_record ''refresh_token'')"
    by (simp add: undated_record_def truthy_prop_def)
  show ?thesis
    using missing_expiry_date_is_expired
      [OF f d, of "env_of 1700000000000 (Resolved bare_response)"] n r
    by (simp add: state_of_def)
qed

end
